theory Spec2Isabelle
  imports Complex_Main "HOL-Library.AList"
begin

section \<open>JavaScript values\<close>

text \<open>
  The client is TypeScript; at run time its data are JavaScript values. A JavaScript
  string is modelled as a \<open>string\<close>. A number is an IEEE double: the not-a-number
  value, the two infinities, or a finite value (a real; both zeros are \<open>Finite 0\<close>).
  The value \<open>undefined\<close> is \<open>None\<close> of an option type, so that a JSON value is never
  \<open>undefined\<close>. An array is an object: besides its elements it carries the named
  properties later assigned to it.
\<close>

datatype jsnumber = NaN | Infinity | NegInfinity | Finite real

datatype jsval =
    JNull
  | JBool bool
  | JNum jsnumber
  | JStr string
  | JArray "jsval list" "(string \<times> jsval) list"
  | JObj "(string \<times> jsval) list"

text \<open>Truthiness (ToBoolean): what \<open>!v\<close>, \<open>v && ...\<close> and \<open>v || ...\<close> test.\<close>

fun truthy :: "jsval \<Rightarrow> bool" where
  "truthy JNull = False"
| "truthy (JBool b) = b"
| "truthy (JNum n) = (n \<noteq> NaN \<and> n \<noteq> Finite 0)"
| "truthy (JStr s) = (s \<noteq> [])"
| "truthy (JArray xs ps) = True"
| "truthy (JObj ps) = True"

fun truthy_opt :: "jsval option \<Rightarrow> bool" where
  "truthy_opt None = False"
| "truthy_opt (Some v) = truthy v"

text \<open>\<open>typeof v === "object"\<close>: true of \<open>null\<close>, of arrays and of plain objects.\<close>

fun typeof_object :: "jsval \<Rightarrow> bool" where
  "typeof_object JNull = True"
| "typeof_object (JArray xs ps) = True"
| "typeof_object (JObj ps) = True"
| "typeof_object v = False"

text \<open>
  Reading and writing a named property. The keys read and written by the client
  (\<open>_doc_id\<close>, \<open>_raw\<close>, \<open>message\<close>, \<open>error\<close>, \<open>error_description\<close>, \<open>code\<close>,
  \<open>items\<close>) are neither array indices nor \<open>length\<close> nor names of the built-in
  prototypes, so a read finds an own named property or \<open>undefined\<close>. A read on
  \<open>undefined\<close> or \<open>null\<close> is only made through \<open>?.\<close> and gives \<open>undefined\<close>.
  A write keeps the position of a key that exists and appends a new key.
\<close>

fun named_props :: "jsval \<Rightarrow> (string \<times> jsval) list" where
  "named_props (JObj ps) = ps"
| "named_props (JArray xs ps) = ps"
| "named_props v = []"

definition get_prop :: "jsval \<Rightarrow> string \<Rightarrow> jsval option" where
  "get_prop v k = map_of (named_props v) k"

fun opt_get_prop :: "jsval option \<Rightarrow> string \<Rightarrow> jsval option" where
  "opt_get_prop None k = None"
| "opt_get_prop (Some v) k = get_prop v k"

fun set_prop :: "jsval \<Rightarrow> string \<Rightarrow> jsval \<Rightarrow> jsval" where
  "set_prop (JObj ps) k x = JObj (AList.update k x ps)"
| "set_prop (JArray xs ps) k x = JArray xs (AList.update k x ps)"
| "set_prop v k x = v"

text \<open>\<open>a ?? b\<close> and \<open>a || b\<close>.\<close>

fun nullish :: "jsval option \<Rightarrow> jsval option \<Rightarrow> jsval option" where
  "nullish None b = b"
| "nullish (Some JNull) b = b"
| "nullish (Some v) b = Some v"

definition js_or :: "jsval option \<Rightarrow> jsval option \<Rightarrow> jsval option" where
  "js_or a b = (if truthy_opt a then a else b)"

section \<open>Data model\<close>

text \<open>
  \<open>interface DocumentPayload\<close> and \<open>interface DocumentRecord\<close>. An optional or nullable
  field is an option (\<open>None\<close> for \<open>undefined\<close> and for \<open>null\<close>). The payload's
  \<open>version\<close> is kept as an arbitrary value, since \<open>parseDocument\<close> tests its type.
\<close>

record DocumentPayload =
  p_id :: string
  p_tenant_id :: string
  p_collection_id :: string
  p_key :: string
  p_key_numeric :: "jsnumber option"
  p_data :: "string option"
  p_version :: "jsval option"
  p_created_at :: string
  p_updated_at :: string
  p_deleted_at :: "string option"

record DocumentRecord =
  r_id :: string
  r_tenant_id :: string
  r_collection_id :: string
  r_key :: string
  r_key_numeric :: "jsnumber option"
  r_data :: jsval
  r_version :: jsnumber
  r_created_at :: string
  r_updated_at :: string
  r_deleted_at :: "string option"

record CollectionPayload =
  c_id :: string
  c_tenant_id :: string
  c_app_id :: "string option"
  c_name :: string
  c_schema_json :: "string option"
  c_primary_key_field :: "string option"
  c_primary_key_type :: "string option"
  c_primary_key_auto :: "bool option"
  c_created_at :: string
  c_updated_at :: string
  c_deleted_at :: "string option"

text \<open>\<open>CollectionDetails\<close> is the payload spread, with \<open>schema\<close> added.\<close>

record CollectionDetails = CollectionPayload +
  c_schema :: "jsval option"

section \<open>Requests, responses and errors\<close>

text \<open>
  \<open>RequestInit\<close> as the client fills it: the method (\<open>http_method\<close>), the headers
  (an object, kept as an association list in insertion order) and the body, which is
  the JSON text the client serialised or a \<open>FormData\<close>/\<open>Blob\<close> passed through untouched.
\<close>

datatype BodyInit = StringBody string | FormDataOrBlob string

record RequestInit =
  http_method :: string
  headers :: "(string \<times> string) list"
  body :: "BodyInit option"

text \<open>
  A \<open>Response\<close>: the status, the status text and the body text (\<open>res.text()\<close>).
  \<open>response.ok\<close> is derived from the status, as the platform does.
\<close>

record Response =
  status :: nat
  statusText :: string
  body_text :: string

definition ok :: "Response \<Rightarrow> bool" where
  "ok response = (200 \<le> status response \<and> status response \<le> 299)"

text \<open>
  What can be thrown. \<open>TypeError\<close> and \<open>Error\<close> carry their message (\<open>Error\<close> stands
  for every \<open>Error\<close> object that is none of the other three); \<open>TinyDBError\<close> carries
  message, status, code and details; \<open>OfflineError\<close> carries its message and the queued
  operation; \<open>Thrown\<close> is a thrown value that is not an \<open>Error\<close> object.
  A \<open>QueuedOperation\<close> holds the URL, the \<open>RequestInit\<close> and the parser, a function that
  returns a value (\<open>None\<close> for \<open>undefined\<close>) or throws.
\<close>

datatype jserror =
    TypeError string
  | Error string
  | TinyDBError string nat "jsval option" "jsval option"
  | OfflineError string QueuedOperation
  | Thrown "jsval option"
and QueuedOperation =
    QueuedOperation (url: string) (init: RequestInit)
      (parser: "Response \<Rightarrow> jserror + jsval option")

type_synonym RequestParser = "Response \<Rightarrow> jserror + jsval option"

text \<open>
  The transport (\<open>FetchLike\<close>) is the environment. Its answer to a call may depend on
  every call made before, so it is a function of the list of the earlier calls and of
  the call itself: it returns a response or throws.
\<close>

type_synonym FetchLike =
  "(string \<times> RequestInit) list \<Rightarrow> string \<Rightarrow> RequestInit \<Rightarrow> jserror + Response"

section \<open>The platform\<close>

text \<open>
  The built-in functions of the JavaScript platform that the client calls are not code
  of the client. They are parameters of the model, collected in one record, and every
  theorem below holds for every platform.
  \<^item> \<open>JSON_parse s\<close> is \<open>JSON.parse(s)\<close>; \<open>None\<close> when it throws.
  \<^item> \<open>JSON_stringify v\<close> is \<open>JSON.stringify(v, replacer)\<close> with the client's replacer,
    which drops nothing from a value that holds no \<open>undefined\<close>.
  \<^item> \<open>ToString v\<close> is the string conversion made by the \<open>Error\<close> constructor.
  \<^item> \<open>URL_href s q\<close> is \<open>new URL(s)\<close>, then \<open>searchParams.set(k, v)\<close> for each pair
    of \<open>q\<close> in order, then \<open>toString()\<close>; \<open>None\<close> when \<open>new URL\<close> throws.
  \<^item> \<open>encodeURIComponent\<close>, \<open>toLowerCase\<close> and \<open>trim\<close> are the functions of those names.
  \<^item> \<open>globalThis_fetch\<close> is \<open>globalThis.fetch\<close>, when the platform has one.

  The client reads a parsed response at a TypeScript type that nothing checks
  (\<open>JSON.parse(text) as T\<close>). \<open>asCollectionPayload\<close> and \<open>asDocumentPayload\<close> give
  the fields that the client reads from such a value; they are parameters too.
\<close>

record platform =
  JSON_parse :: "string \<Rightarrow> jsval option"
  JSON_stringify :: "jsval \<Rightarrow> string"
  ToString :: "jsval \<Rightarrow> string"
  URL_href :: "string \<Rightarrow> (string \<times> string) list \<Rightarrow> string option"
  encodeURIComponent :: "string \<Rightarrow> string"
  toLowerCase :: "string \<Rightarrow> string"
  trim :: "string \<Rightarrow> string"
  globalThis_fetch :: "FetchLike option"
  asCollectionPayload :: "jsval \<Rightarrow> CollectionPayload"
  asDocumentPayload :: "jsval \<Rightarrow> DocumentPayload"

section \<open>Payload codec: documents\<close>

text \<open>\<open>parseDocument\<close>, the value of \<open>data\<close> after the first two statements.\<close>

definition parseDocument_data :: "platform \<Rightarrow> DocumentPayload \<Rightarrow> jsval" where
  "parseDocument_data P payload =
     (let data =
        (case p_data payload of
           None \<Rightarrow> JObj []
         | Some s \<Rightarrow>
             if s = [] then JObj []
             else (case JSON_parse P s of
                     Some v \<Rightarrow> v
                   | None \<Rightarrow> JObj [(''_raw'', JStr s)]))
      in if \<not> truthy data \<or> \<not> typeof_object data then JObj [] else data)"

text \<open>\<open>parseDocument\<close>, the value stored in \<open>data._doc_id\<close>.\<close>

definition parseDocument_docId :: "DocumentPayload \<Rightarrow> jsval \<Rightarrow> jsval" where
  "parseDocument_docId payload data =
     (let docId = nullish (get_prop data ''_doc_id'') (Some (JStr (p_id payload)))
      in case docId of
           Some (JStr s) \<Rightarrow> if s \<noteq> [] then JStr s else JStr (p_id payload)
         | _ \<Rightarrow> JStr (p_id payload))"

text \<open>\<open>parseDocument\<close>, the value of \<open>version\<close>.\<close>

definition parseDocument_version :: "DocumentPayload \<Rightarrow> jsnumber" where
  "parseDocument_version payload =
     (case p_version payload of
        Some (JNum n) \<Rightarrow> if n \<noteq> NaN then n else Finite 1
      | _ \<Rightarrow> Finite 1)"

definition parseDocument :: "platform \<Rightarrow> DocumentPayload \<Rightarrow> DocumentRecord" where
  "parseDocument P payload =
     (let data = parseDocument_data P payload;
          data = set_prop data ''_doc_id'' (parseDocument_docId payload data);
          version = parseDocument_version payload
      in \<lparr> r_id = p_id payload,
           r_tenant_id = p_tenant_id payload,
           r_collection_id = p_collection_id payload,
           r_key = p_key payload,
           r_key_numeric = p_key_numeric payload,
           r_data = data,
           r_version = version,
           r_created_at = p_created_at payload,
           r_updated_at = p_updated_at payload,
           r_deleted_at = p_deleted_at payload \<rparr>)"

section \<open>Payload codec: collections\<close>

definition parseCollection :: "platform \<Rightarrow> CollectionPayload \<Rightarrow> CollectionDetails" where
  "parseCollection P payload =
     (let schema =
        (case c_schema_json payload of
           None \<Rightarrow> None
         | Some s \<Rightarrow>
             if s = [] then None
             else (case JSON_parse P s of
                     Some v \<Rightarrow> Some v
                   | None \<Rightarrow> Some (JObj [(''_raw'', JStr s)])))
      in CollectionPayload.extend payload (CollectionDetails.fields schema))"

section \<open>Helpers of the request executor\<close>

definition jsonParser :: "platform \<Rightarrow> RequestParser" where
  "jsonParser P res =
     (if status res = 204 then Inr None
      else let text = body_text res
           in if text = [] then Inr None
              else (case JSON_parse P text of
                      Some v \<Rightarrow> Inr (Some v)
                    | None \<Rightarrow> Inl (Error ''Failed to parse JSON response'')))"

definition stringifySchema :: "platform \<Rightarrow> jsval option \<Rightarrow> string option" where
  "stringifySchema P schema =
     (if \<not> truthy_opt schema then None
      else (case schema of None \<Rightarrow> None | Some v \<Rightarrow> Some (JSON_stringify P v)))"

text \<open>
  \<open>buildURL\<close>. \<open>base.replace(/\/?$/, "")\<close> removes one trailing slash when there is one.
  The entries of \<open>query\<close> whose value is \<open>undefined\<close> (\<open>None\<close>) are skipped.
  \<open>new URL\<close> throws a \<open>TypeError\<close> on a string that is not a URL.
\<close>

definition strip_trailing_slash :: "string \<Rightarrow> string" where
  "strip_trailing_slash base =
     (if base \<noteq> [] \<and> last base = CHR ''/'' then butlast base else base)"

definition defined_entries :: "(string \<times> string option) list \<Rightarrow> (string \<times> string) list" where
  "defined_entries query =
     concat (map (\<lambda>(key, value). case value of None \<Rightarrow> [] | Some v \<Rightarrow> [(key, v)]) query)"

definition buildURL ::
  "platform \<Rightarrow> string \<Rightarrow> string \<Rightarrow> (string \<times> string option) list option \<Rightarrow> jserror + string"
where
  "buildURL P base path query =
     (let trimmed = strip_trailing_slash base;
          normalized = (if path \<noteq> [] \<and> hd path = CHR ''/'' then path else ''/'' @ path)
      in case URL_href P (trimmed @ normalized)
                (case query of None \<Rightarrow> [] | Some q \<Rightarrow> defined_entries q) of
           None \<Rightarrow> Inl (TypeError ''Invalid URL'')
         | Some href \<Rightarrow> Inr href)"

text \<open>
  \<open>isNetworkError\<close>. The regular expression \<open>/network|fetch failed|Failed to fetch/i\<close>
  has no \<open>u\<close> flag, so its letters match exactly their two ASCII cases: the test is a
  substring search in the message with the ASCII capitals lowered.
\<close>

definition lower_char :: "char \<Rightarrow> char" where
  "lower_char c =
     (case map_of (zip ''ABCDEFGHIJKLMNOPQRSTUVWXYZ'' ''abcdefghijklmnopqrstuvwxyz'') c of
        Some l \<Rightarrow> l
      | None \<Rightarrow> c)"

fun starts_with :: "string \<Rightarrow> string \<Rightarrow> bool" where
  "starts_with [] s = True"
| "starts_with (p # ps) [] = False"
| "starts_with (p # ps) (c # cs) = (p = c \<and> starts_with ps cs)"

fun contains :: "string \<Rightarrow> string \<Rightarrow> bool" where
  "contains sub [] = (sub = [])"
| "contains sub (c # cs) = (starts_with sub (c # cs) \<or> contains sub cs)"

definition connectivity_pattern :: "string \<Rightarrow> bool" where
  "connectivity_pattern message =
     (let m = map lower_char message
      in contains ''network'' m \<or> contains ''fetch failed'' m \<or> contains ''failed to fetch'' m)"

fun isNetworkError :: "jserror \<Rightarrow> bool" where
  "isNetworkError (TypeError m) = True"
| "isNetworkError (Error m) = (m \<noteq> [] \<and> connectivity_pattern m)"
| "isNetworkError (TinyDBError m st code details) = (m \<noteq> [] \<and> connectivity_pattern m)"
| "isNetworkError (OfflineError m operation) = (m \<noteq> [] \<and> connectivity_pattern m)"
| "isNetworkError (Thrown v) = False"

text \<open>
  \<open>parseError\<close>. The payload is \<open>undefined\<close> when the body is empty or is not JSON.
  The message passed to the \<open>Error\<close> constructor is converted to a string there.
\<close>

definition error_message :: "platform \<Rightarrow> jsval option \<Rightarrow> string" where
  "error_message P m =
     (case m of None \<Rightarrow> [] | Some (JStr s) \<Rightarrow> s | Some v \<Rightarrow> ToString P v)"

definition parseError :: "platform \<Rightarrow> Response \<Rightarrow> jserror" where
  "parseError P response =
     (let text = body_text response;
          payload = (if text \<noteq> [] then JSON_parse P text else None);
          message =
            js_or (opt_get_prop payload ''message'')
             (js_or (opt_get_prop payload ''error_description'')
               (js_or (opt_get_prop payload ''error'')
                 (js_or (Some (JStr (statusText response)))
                   (Some (JStr ''Request failed'')))));
          code = js_or (opt_get_prop payload ''code'') (opt_get_prop payload ''error'')
      in TinyDBError (error_message P message) (status response) code payload)"

section \<open>The client\<close>

text \<open>
  \<open>class TinyDB\<close>. All fields but the offline queue are read-only. The state that the
  asynchronous methods thread is the client together with the list of the calls made to
  the transport so far, in order; the list is what \<open>fetchImpl\<close> is asked with, and it
  records which requests a method issued.
\<close>

record TinyDBOptions =
  opt_endpoint :: string
  opt_apiKey :: string
  opt_appId :: "string option"
  opt_offlineMode :: "bool option"
  opt_fetch :: "FetchLike option"

record TinyDB =
  fetchImpl :: FetchLike
  endpoint :: string
  appId :: "string option"
  offlineMode :: bool
  baseHeaders :: "(string \<times> string) list"
  offlineQueue :: "QueuedOperation list"

record runtime =
  db :: TinyDB
  issued :: "(string \<times> RequestInit) list"

definition ensureFetch :: "platform \<Rightarrow> FetchLike option \<Rightarrow> jserror + FetchLike" where
  "ensureFetch P fetchImpl' =
     (case (case fetchImpl' of Some f \<Rightarrow> Some f | None \<Rightarrow> globalThis_fetch P) of
        None \<Rightarrow>
          Inl (Error
            ''fetch implementation is required. Provide options.fetch or ensure global fetch exists.'')
      | Some candidate \<Rightarrow> Inr candidate)"

text \<open>The constructor. \<open>endpoint.replace(/\/?$/, "/")\<close> makes the endpoint end in a slash.\<close>

definition TinyDB_constructor :: "platform \<Rightarrow> TinyDBOptions \<Rightarrow> jserror + TinyDB" where
  "TinyDB_constructor P options =
     (if opt_endpoint options = [] then Inl (Error ''endpoint is required'')
      else if opt_apiKey options = [] then Inl (Error ''apiKey is required'')
      else (case ensureFetch P (opt_fetch options) of
              Inl e \<Rightarrow> Inl e
            | Inr f \<Rightarrow>
                Inr \<lparr> fetchImpl = f,
                      endpoint = strip_trailing_slash (opt_endpoint options) @ ''/'',
                      appId = opt_appId options,
                      offlineMode = (opt_offlineMode options = Some True),
                      baseHeaders =
                        [(''Accept'', ''application/json''), (''X-API-Key'', opt_apiKey options)]
                        @ (case opt_appId options of
                             None \<Rightarrow> []
                           | Some a \<Rightarrow> if a = [] then [] else [(''X-App-ID'', a)]),
                      offlineQueue = [] \<rparr>))"

text \<open>One call of the transport: the answer, and the call appended to the list.\<close>

definition callFetch ::
  "runtime \<Rightarrow> string \<Rightarrow> RequestInit \<Rightarrow> (jserror + Response) \<times> runtime"
where
  "callFetch rt u i =
     (fetchImpl (db rt) (issued rt) u i, rt\<lparr>issued := issued rt @ [(u, i)]\<rparr>)"

definition enqueue :: "QueuedOperation \<Rightarrow> runtime \<Rightarrow> runtime" where
  "enqueue queued rt = rt\<lparr>db := (db rt)\<lparr>offlineQueue := offlineQueue (db rt) @ [queued]\<rparr>\<rparr>"

subsection \<open>The request executor\<close>

text \<open>
  \<open>interface RequestOptions\<close>. The body is a structured value, serialised by the client,
  or a \<open>FormData\<close>/\<open>Blob\<close>.
\<close>

datatype RequestBody = Structured jsval | Binary string

record RequestOptions =
  req_method :: string
  req_path :: string
  req_query :: "(string \<times> string option) list option"
  req_body :: "RequestBody option"
  req_headers :: "(string \<times> string) list option"
  req_parser :: "RequestParser option"
  allowOfflineQueue :: "bool option"

definition spread_headers ::
  "(string \<times> string) list \<Rightarrow> (string \<times> string) list \<Rightarrow> (string \<times> string) list"
where
  "spread_headers base extra = foldl (\<lambda>h (k, v). AList.update k v h) base extra"

text \<open>The request as built before the \<open>try\<close>: headers and body.\<close>

definition build_init :: "platform \<Rightarrow> TinyDB \<Rightarrow> RequestOptions \<Rightarrow> RequestInit" where
  "build_init P client options =
     (let headers0 =
            spread_headers (baseHeaders client)
              (case req_headers options of None \<Rightarrow> [] | Some h \<Rightarrow> h)
      in case req_body options of
           None \<Rightarrow> \<lparr> http_method = req_method options, headers = headers0, body = None \<rparr>
         | Some (Binary b) \<Rightarrow>
             \<lparr> http_method = req_method options, headers = headers0,
               body = Some (FormDataOrBlob b) \<rparr>
         | Some (Structured v) \<Rightarrow>
             \<lparr> http_method = req_method options,
               headers =
                 AList.update ''Content-Type''
                   (case map_of headers0 ''Content-Type'' of
                      Some t \<Rightarrow> t
                    | None \<Rightarrow> ''application/json'')
                   headers0,
               body = Some (StringBody (JSON_stringify P v)) \<rparr>)"

text \<open>The body of the \<open>try\<close> block of \<open>requestInternal\<close>.\<close>

definition attempt ::
  "platform \<Rightarrow> runtime \<Rightarrow> string \<Rightarrow> RequestInit \<Rightarrow> RequestParser
     \<Rightarrow> (jserror + jsval option) \<times> runtime"
where
  "attempt P rt u i p =
     (case callFetch rt u i of
        (Inl e, rt1) \<Rightarrow> (Inl e, rt1)
      | (Inr response, rt1) \<Rightarrow>
          if \<not> ok response then (Inl (parseError P response), rt1)
          else (p response, rt1))"

definition requestInternal ::
  "platform \<Rightarrow> runtime \<Rightarrow> RequestOptions \<Rightarrow> (jserror + jsval option) \<times> runtime"
where
  "requestInternal P rt options =
     (let p = (case req_parser options of Some f \<Rightarrow> f | None \<Rightarrow> jsonParser P)
      in case buildURL P (endpoint (db rt)) (req_path options) (req_query options) of
           Inl e \<Rightarrow> (Inl e, rt)
         | Inr u \<Rightarrow>
             let i = build_init P (db rt) options
             in (case attempt P rt u i p of
                   (Inr v, rt1) \<Rightarrow> (Inr v, rt1)
                 | (Inl error, rt1) \<Rightarrow>
                     if offlineMode (db rt1) \<and> allowOfflineQueue options = Some True
                        \<and> req_method options \<noteq> ''GET'' \<and> isNetworkError error
                     then let queued = QueuedOperation u i p
                          in (Inl (OfflineError ''Request queued while offline'' queued),
                              enqueue queued rt1)
                     else (Inl error, rt1)))"

subsection \<open>The offline queue\<close>





subsection \<open>The collection resolver\<close>

text \<open>
  Reading a parsed response as a collection payload. \<open>parseCollection(payload)\<close> reads
  \<open>payload.schema_json\<close> first, which throws a \<open>TypeError\<close> on \<open>undefined\<close> and on
  \<open>null\<close>.
\<close>

definition parseCollection_of :: "platform \<Rightarrow> jsval option \<Rightarrow> jserror + CollectionDetails" where
  "parseCollection_of P payload =
     (case payload of
        None \<Rightarrow>
          Inl (TypeError ''Cannot read properties of undefined (reading 'schema_json')'')
      | Some JNull \<Rightarrow>
          Inl (TypeError ''Cannot read properties of null (reading 'schema_json')'')
      | Some v \<Rightarrow> Inr (parseCollection P (asCollectionPayload P v)))"

text \<open>\<open>payload.map(parseCollection)\<close>: left to right, the first throw ends it.\<close>

fun map_parseCollection :: "platform \<Rightarrow> jsval list \<Rightarrow> jserror + CollectionDetails list" where
  "map_parseCollection P [] = Inr []"
| "map_parseCollection P (x # xs) =
     (case parseCollection_of P (Some x) of
        Inl e \<Rightarrow> Inl e
      | Inr d \<Rightarrow>
          (case map_parseCollection P xs of
             Inl e \<Rightarrow> Inl e
           | Inr ds \<Rightarrow> Inr (d # ds)))"

definition collections_request :: "platform \<Rightarrow> RequestOptions" where
  "collections_request P =
     \<lparr> req_method = ''GET'', req_path = ''/api/collections'', req_query = None,
       req_body = None, req_headers = None, req_parser = Some (jsonParser P),
       allowOfflineQueue = None \<rparr>"

definition collections ::
  "platform \<Rightarrow> runtime \<Rightarrow> (jserror + CollectionDetails list) \<times> runtime"
where
  "collections P rt =
     (case requestInternal P rt (collections_request P) of
        (Inl e, rt1) \<Rightarrow> (Inl e, rt1)
      | (Inr payload, rt1) \<Rightarrow>
          (case payload of
             None \<Rightarrow> (Inl (TypeError ''Cannot read properties of undefined (reading 'map')''), rt1)
           | Some JNull \<Rightarrow>
               (Inl (TypeError ''Cannot read properties of null (reading 'map')''), rt1)
           | Some (JArray xs ps) \<Rightarrow> (map_parseCollection P xs, rt1)
           | Some v \<Rightarrow> (Inl (TypeError ''payload.map is not a function''), rt1)))"

definition describeCollection ::
  "platform \<Rightarrow> runtime \<Rightarrow> string \<Rightarrow> (jserror + CollectionDetails) \<times> runtime"
where
  "describeCollection P rt name =
     (case collections P rt of
        (Inl e, rt1) \<Rightarrow> (Inl e, rt1)
      | (Inr listings, rt1) \<Rightarrow>
          (let lowered = toLowerCase P name
           in case find (\<lambda>col. toLowerCase P (c_name col) = lowered) listings of
                None \<Rightarrow>
                  (Inl (TinyDBError (''collection '' @ name @ '' not found'') 404
                          (Some (JStr ''collection_not_found'')) None), rt1)
              | Some found \<Rightarrow> (Inr found, rt1)))"

record PrimaryKeyConfig =
  pk_field :: "string option"
  pk_type :: "string option"
  pk_auto :: "bool option"

record EnsureCollectionInput =
  in_name :: string
  in_schema :: "jsval option"
  in_primaryKey :: "PrimaryKeyConfig option"

text \<open>
  The body of the create request, key by key in the order the client adds them.
  \<open>truthy_string\<close> is the test \<open>if (s)\<close> on an optional string: it keeps a string
  that is present and not empty.
\<close>

definition truthy_string :: "string option \<Rightarrow> string option" where
  "truthy_string s = (case s of None \<Rightarrow> None | Some t \<Rightarrow> if t = [] then None else Some t)"

definition primary_key_block :: "PrimaryKeyConfig \<Rightarrow> (string \<times> jsval) list" where
  "primary_key_block pk =
     (case pk_field pk of
        None \<Rightarrow> []
      | Some f \<Rightarrow> if f = [] then [] else [(''field'', JStr f)])
     @ (case pk_type pk of
          None \<Rightarrow> []
        | Some t \<Rightarrow> if t = [] then [] else [(''type'', JStr t)])
     @ (case pk_auto pk of
          None \<Rightarrow> []
        | Some a \<Rightarrow> [(''auto'', JBool a)])"

definition ensureCollection_body ::
  "TinyDB \<Rightarrow> EnsureCollectionInput \<Rightarrow> string option \<Rightarrow> jsval"
where
  "ensureCollection_body client input schemaStr =
     JObj ([(''name'', JStr (in_name input))]
       @ (case truthy_string schemaStr of None \<Rightarrow> [] | Some t \<Rightarrow> [(''schema'', JStr t)])
       @ (case truthy_string (appId client) of None \<Rightarrow> [] | Some a \<Rightarrow> [(''app_id'', JStr a)])
       @ (case in_primaryKey input of
            None \<Rightarrow> []
          | Some pk \<Rightarrow>
              if primary_key_block pk \<noteq> []
              then [(''primary_key'', JObj (primary_key_block pk))]
              else []))"

text \<open>The create request and the update request of \<open>ensureCollection\<close>.\<close>

definition create_collection_request ::
  "platform \<Rightarrow> TinyDB \<Rightarrow> EnsureCollectionInput \<Rightarrow> RequestOptions"
where
  "create_collection_request P client input =
     \<lparr> req_method = ''POST'', req_path = ''/api/collections'', req_query = None,
       req_body =
         Some (Structured
           (ensureCollection_body client input (stringifySchema P (in_schema input)))),
       req_headers = None, req_parser = Some (jsonParser P),
       allowOfflineQueue = Some False \<rparr>"

definition update_schema_request :: "platform \<Rightarrow> string \<Rightarrow> string \<Rightarrow> RequestOptions" where
  "update_schema_request P name schemaStr =
     \<lparr> req_method = ''PUT'',
       req_path = ''/api/collections/'' @ encodeURIComponent P name,
       req_query = None,
       req_body = Some (Structured (JObj [(''schema'', JStr schemaStr)])),
       req_headers = None, req_parser = Some (jsonParser P),
       allowOfflineQueue = Some False \<rparr>"

text \<open>
  \<open>ensureCollection\<close>. The \<open>try\<close> block holds the create request and the decoding of
  its answer; the \<open>catch\<close> block sees what either of them throws. What
  \<open>describeCollection\<close> returns is an object, hence truthy, so \<open>if (existing)\<close> always
  returns it.
\<close>

definition ensureCollection ::
  "platform \<Rightarrow> runtime \<Rightarrow> EnsureCollectionInput \<Rightarrow> (jserror + CollectionDetails) \<times> runtime"
where
  "ensureCollection P rt input =
     (let schemaStr = stringifySchema P (in_schema input);
          tried =
            (case requestInternal P rt (create_collection_request P (db rt) input) of
               (Inl e, rt1) \<Rightarrow> (Inl e, rt1)
             | (Inr created, rt1) \<Rightarrow> (parseCollection_of P created, rt1))
      in case tried of
           (Inr details, rt1) \<Rightarrow> (Inr details, rt1)
         | (Inl error, rt1) \<Rightarrow>
             (case error of
                TinyDBError m st code details \<Rightarrow>
                  if st = 409 then
                    (case truthy_string schemaStr of
                       Some t \<Rightarrow>
                         (case requestInternal P rt1
                                 (update_schema_request P (in_name input) t) of
                            (Inl e, rt2) \<Rightarrow> (Inl e, rt2)
                          | (Inr updated, rt2) \<Rightarrow> (parseCollection_of P updated, rt2))
                     | None \<Rightarrow> describeCollection P rt1 (in_name input))
                  else (Inl error, rt1)
              | _ \<Rightarrow> (Inl error, rt1)))"

subsection \<open>The collection builder\<close>

text \<open>
  \<open>class CollectionBuilder\<close>, as \<open>TinyDB.collection\<close> makes it (no \<open>onResolved\<close>
  callback), and \<open>class CollectionClient\<close>: the name and the cached descriptor.
\<close>

record CollectionBuilder =
  b_name :: string
  schemaDef :: "jsval option"
  pkConfig :: "PrimaryKeyConfig option"

record CollectionClient =
  cc_name :: string
  metadata :: CollectionDetails

definition collection :: "platform \<Rightarrow> string \<Rightarrow> jserror + CollectionBuilder" where
  "collection P name =
     (if name = [] \<or> trim P name = [] then Inl (Error ''collection name is required'')
      else Inr \<lparr> b_name = trim P name, schemaDef = None, pkConfig = None \<rparr>)"

definition schema :: "CollectionBuilder \<Rightarrow> jsval \<Rightarrow> CollectionBuilder" where
  "schema builder definition' = builder\<lparr>schemaDef := Some definition'\<rparr>"


definition sync ::
  "platform \<Rightarrow> runtime \<Rightarrow> CollectionBuilder \<Rightarrow> (jserror + CollectionClient) \<times> runtime"
where
  "sync P rt builder =
     (case ensureCollection P rt
             \<lparr> in_name = b_name builder, in_schema = schemaDef builder,
               in_primaryKey = pkConfig builder \<rparr> of
        (Inl e, rt1) \<Rightarrow> (Inl e, rt1)
      | (Inr meta, rt1) \<Rightarrow> (Inr \<lparr> cc_name = b_name builder, metadata = meta \<rparr>, rt1))"


subsection \<open>The collection operations facade\<close>

















section \<open>Observations\<close>

text \<open>
  The calls that \<open>requestInternal\<close> makes to the transport for given options: none when
  \<open>buildURL\<close> throws, otherwise the one call with the built URL and \<open>RequestInit\<close>.
\<close>

definition transport_calls ::
  "platform \<Rightarrow> TinyDB \<Rightarrow> RequestOptions \<Rightarrow> (string \<times> RequestInit) list"
where
  "transport_calls P client options =
     (case buildURL P (endpoint client) (req_path options) (req_query options) of
        Inl e \<Rightarrow> []
      | Inr u \<Rightarrow> [(u, build_init P client options)])"


section \<open>A platform and transports for the worked examples\<close>

text \<open>
  The worked examples need one platform. \<open>example_platform\<close> agrees with the JavaScript
  built-ins on the arguments the examples pass: \<open>JSON.parse\<close> and \<open>JSON.stringify\<close>
  on the listed texts and values (every other text used below is not JSON),
  \<open>new URL\<close> on absolute \<open>https\<close> URLs in normal form with query values that need no
  escaping, \<open>encodeURIComponent\<close> on unreserved characters, \<open>toLowerCase\<close> and \<open>trim\<close>
  on ASCII.
\<close>

definition quoted :: "string \<Rightarrow> string" where
  "quoted s = CHR 0x22 # s @ [CHR 0x22]"

definition example_texts :: "(string \<times> jsval) list" where
  "example_texts =
     [(''42'', JNum (Finite 42)),
      (''null'', JNull),
      (''[]'', JArray [] []),
      (''{}'', JObj []),
      (''{'' @ quoted ''_doc_id'' @ '':'' @ quoted ''abc'' @ ''}'',
         JObj [(''_doc_id'', JStr ''abc'')]),
      (''{'' @ quoted ''name'' @ '':'' @ quoted ''Sambo'' @ ''}'',
         JObj [(''name'', JStr ''Sambo'')]),
      (''{'' @ quoted ''message'' @ '':'' @ quoted ''network_id is required'' @ ''}'',
         JObj [(''message'', JStr ''network_id is required'')]),
      (''{'' @ quoted ''name'' @ '':'' @ quoted ''users'' @ ''}'',
         JObj [(''name'', JStr ''users'')]),
      (''[{'' @ quoted ''name'' @ '':'' @ quoted ''Users'' @ ''}]'',
         JArray [JObj [(''name'', JStr ''Users'')]] []),
      (''[{'' @ quoted ''name'' @ '':'' @ quoted ''Sambo'' @ ''}]'',
         JArray [JObj [(''name'', JStr ''Sambo'')]] []),
      (''{'' @ quoted ''schema'' @ '':'' @ quoted ''{}'' @ ''}'',
         JObj [(''schema'', JStr ''{}'')]),
      (''{'' @ quoted ''name'' @ '':'' @ quoted ''users'' @ '','' @ quoted ''schema'' @ '':''
         @ quoted ''{}'' @ ''}'',
         JObj [(''name'', JStr ''users''), (''schema'', JStr ''{}'')])]"

definition example_stringify :: "jsval \<Rightarrow> string" where
  "example_stringify v =
     (case map_of (map (\<lambda>(t, w). (w, t)) example_texts) v of
        Some t \<Rightarrow> t
      | None \<Rightarrow> ''null'')"

fun example_ToString :: "jsval \<Rightarrow> string" where
  "example_ToString JNull = ''null''"
| "example_ToString (JBool b) = (if b then ''true'' else ''false'')"
| "example_ToString (JStr s) = s"
| "example_ToString (JObj ps) = ''[object Object]''"
| "example_ToString v = []"

fun query_string :: "(string \<times> string) list \<Rightarrow> string" where
  "query_string [] = []"
| "query_string [(k, v)] = k @ ''='' @ v"
| "query_string ((k, v) # rest) = k @ ''='' @ v @ ''&'' @ query_string rest"

definition example_href :: "string \<Rightarrow> (string \<times> string) list \<Rightarrow> string option" where
  "example_href s q =
     (if starts_with ''https://'' s
      then Some (s @ (if q = [] then [] else ''?'' @ query_string q))
      else None)"

definition is_space :: "char \<Rightarrow> bool" where
  "is_space c = (c \<in> set [CHR '' '', CHR 0x09, CHR 0x0A, CHR 0x0B, CHR 0x0C, CHR 0x0D])"

definition example_trim :: "string \<Rightarrow> string" where
  "example_trim s = rev (dropWhile is_space (rev (dropWhile is_space s)))"

definition string_field :: "jsval \<Rightarrow> string \<Rightarrow> string" where
  "string_field v k = (case get_prop v k of Some (JStr s) \<Rightarrow> s | _ \<Rightarrow> [])"

definition optional_string_field :: "jsval \<Rightarrow> string \<Rightarrow> string option" where
  "optional_string_field v k = (case get_prop v k of Some (JStr s) \<Rightarrow> Some s | _ \<Rightarrow> None)"

definition example_asCollectionPayload :: "jsval \<Rightarrow> CollectionPayload" where
  "example_asCollectionPayload v =
     \<lparr> c_id = string_field v ''id'',
       c_tenant_id = string_field v ''tenant_id'',
       c_app_id = optional_string_field v ''app_id'',
       c_name = string_field v ''name'',
       c_schema_json = optional_string_field v ''schema_json'',
       c_primary_key_field = optional_string_field v ''primary_key_field'',
       c_primary_key_type = optional_string_field v ''primary_key_type'',
       c_primary_key_auto =
         (case get_prop v ''primary_key_auto'' of Some (JBool b) \<Rightarrow> Some b | _ \<Rightarrow> None),
       c_created_at = string_field v ''created_at'',
       c_updated_at = string_field v ''updated_at'',
       c_deleted_at = optional_string_field v ''deleted_at'' \<rparr>"

definition example_asDocumentPayload :: "jsval \<Rightarrow> DocumentPayload" where
  "example_asDocumentPayload v =
     \<lparr> p_id = string_field v ''id'',
       p_tenant_id = string_field v ''tenant_id'',
       p_collection_id = string_field v ''collection_id'',
       p_key = string_field v ''key'',
       p_key_numeric = (case get_prop v ''key_numeric'' of Some (JNum n) \<Rightarrow> Some n | _ \<Rightarrow> None),
       p_data = optional_string_field v ''data'',
       p_version = get_prop v ''version'',
       p_created_at = string_field v ''created_at'',
       p_updated_at = string_field v ''updated_at'',
       p_deleted_at = optional_string_field v ''deleted_at'' \<rparr>"

definition example_platform :: platform where
  "example_platform =
     \<lparr> JSON_parse = map_of example_texts,
       JSON_stringify = example_stringify,
       ToString = example_ToString,
       URL_href = example_href,
       encodeURIComponent = (\<lambda>s. s),
       toLowerCase = map lower_char,
       trim = example_trim,
       globalThis_fetch = None,
       asCollectionPayload = example_asCollectionPayload,
       asDocumentPayload = example_asDocumentPayload \<rparr>"

text \<open>
  A scripted transport answers its \<open>k\<close>-th call with the \<open>k\<close>-th entry of the script
  and fails every later call as a disconnected \<open>fetch\<close> does.
\<close>

definition scripted :: "(jserror + Response) list \<Rightarrow> FetchLike" where
  "scripted script calls u i =
     (if length calls < length script then script ! length calls
      else Inl (TypeError ''fetch failed''))"

definition example_client :: "FetchLike \<Rightarrow> bool \<Rightarrow> TinyDB" where
  "example_client f offline =
     \<lparr> fetchImpl = f, endpoint = ''https://db.example/'', appId = None,
       offlineMode = offline,
       baseHeaders = [(''Accept'', ''application/json''), (''X-API-Key'', ''secret'')],
       offlineQueue = [] \<rparr>"

text \<open>A write request as \<open>CollectionClient.create\<close> makes it for one document.\<close>

definition example_write :: RequestOptions where
  "example_write =
     \<lparr> req_method = ''POST'', req_path = ''/api/collections/users/documents'',
       req_query = None, req_body = Some (Structured (JObj [(''name'', JStr ''Sambo'')])),
       req_headers = None, req_parser = None, allowOfflineQueue = Some True \<rparr>"


definition example_response :: "nat \<Rightarrow> Response" where
  "example_response st = \<lparr> status = st, statusText = [], body_text = [] \<rparr>"

text \<open>A fresh state: an online client on a scripted transport, nothing sent yet.\<close>

definition example_runtime :: "(jserror + Response) list \<Rightarrow> runtime" where
  "example_runtime script = \<lparr> db = example_client (scripted script) False, issued = [] \<rparr>"

text \<open>A response with status 200 and the given body.\<close>

definition example_ok :: "string \<Rightarrow> Response" where
  "example_ok text = \<lparr> status = 200, statusText = ''OK'', body_text = text \<rparr>"



text \<open>
  The \<open>RequestInit\<close> that \<open>requestInternal\<close> builds for \<open>example_write\<close>, and a
  response of status 400 whose body is \<open>{"message":"network_id is required"}\<close>.
\<close>

definition example_write_init :: RequestInit where
  "example_write_init =
     \<lparr> http_method = ''POST'',
       headers = [(''Accept'', ''application/json''), (''X-API-Key'', ''secret''),
                  (''Content-Type'', ''application/json'')],
       body = Some (StringBody (''{'' @ quoted ''name'' @ '':'' @ quoted ''Sambo'' @ ''}'')) \<rparr>"

definition example_bad_request :: Response where
  "example_bad_request =
     \<lparr> status = 400, statusText = ''Bad Request'',
       body_text = ''{'' @ quoted ''message'' @ '':'' @ quoted ''network_id is required''
                     @ ''}'' \<rparr>"

definition example_payload :: "string option \<Rightarrow> jsval option \<Rightarrow> DocumentPayload" where
  "example_payload d v =
     \<lparr> p_id = ''doc-1'', p_tenant_id = ''t'', p_collection_id = ''c'', p_key = ''k'',
       p_key_numeric = None, p_data = d, p_version = v,
       p_created_at = ''2025-01-01'', p_updated_at = ''2025-01-01'', p_deleted_at = None \<rparr>"

section \<open>Payload codec: what \<open>parseDocument\<close> returns\<close>

lemmas example_defs = example_platform_def example_texts_def quoted_def example_payload_def

lemma parseDocument_data_shape:
  "(\<exists>ps. parseDocument_data P payload = JObj ps)
     \<or> (\<exists>xs ps. parseDocument_data P payload = JArray xs ps)"
proof (cases "p_data payload")
  case None
  then show ?thesis by (simp add: parseDocument_data_def)
next
  case (Some s)
  show ?thesis
  proof (cases "s = []")
    case True
    with Some show ?thesis by (simp add: parseDocument_data_def)
  next
    case False
    show ?thesis
    proof (cases "JSON_parse P s")
      case None
      with Some False show ?thesis by (simp add: parseDocument_data_def)
    next
      case parsed: (Some v)
      with Some False show ?thesis
        by (cases v) (simp_all add: parseDocument_data_def)
    qed
  qed
qed

lemma get_prop_set_prop:
  "(\<exists>ps. v = JObj ps) \<or> (\<exists>xs ps. v = JArray xs ps) \<Longrightarrow> get_prop (set_prop v k x) k = Some x"
  by (auto simp: get_prop_def update_conv')

lemma r_data_parseDocument:
  "r_data (parseDocument P payload) =
     set_prop (parseDocument_data P payload) ''_doc_id''
       (parseDocument_docId payload (parseDocument_data P payload))"
  by (simp add: parseDocument_def Let_def)

text \<open>
  Claim C4, as the code has it. For every document payload the \<open>data\<close> of the record
  returned by \<open>parseDocument\<close> is an object and never \<open>null\<close>: a plain object, or
  the parsed array when the data string is the JSON text of an array. When the data
  string is absent (or empty) the data is the empty object plus the internal id field.
  When the data string is not JSON the data holds the original string under the key
  \<open>_raw\<close>, plus the internal id field. When the data string parses to \<open>null\<close> or to a
  number, string or boolean, the data is the empty object plus the internal id field and
  has no \<open>_raw\<close> key. When it parses to an object or an array, the data is that value
  with the internal id field set.
\<close>

theorem parseDocument_data_is_object:
  "((\<exists>ps. r_data (parseDocument P payload) = JObj ps)
      \<or> (\<exists>xs ps. r_data (parseDocument P payload) = JArray xs ps))
   \<and> (p_data payload = None \<or> p_data payload = Some [] \<longrightarrow>
        r_data (parseDocument P payload) = JObj [(''_doc_id'', JStr (p_id payload))])
   \<and> (p_data payload = Some s \<and> s \<noteq> [] \<and> JSON_parse P s = None \<longrightarrow>
        r_data (parseDocument P payload)
          = JObj [(''_raw'', JStr s), (''_doc_id'', JStr (p_id payload))])
   \<and> (p_data payload = Some s \<and> s \<noteq> [] \<and> JSON_parse P s = Some v
        \<and> (\<forall>ps. v \<noteq> JObj ps) \<and> (\<forall>xs ps. v \<noteq> JArray xs ps) \<longrightarrow>
        r_data (parseDocument P payload) = JObj [(''_doc_id'', JStr (p_id payload))])
   \<and> (p_data payload = Some s \<and> s \<noteq> [] \<and> JSON_parse P s = Some v
        \<and> ((\<exists>ps. v = JObj ps) \<or> (\<exists>xs ps. v = JArray xs ps)) \<longrightarrow>
        r_data (parseDocument P payload)
          = set_prop v ''_doc_id'' (parseDocument_docId payload v))"
proof (intro conjI impI)
  show "(\<exists>ps. r_data (parseDocument P payload) = JObj ps)
      \<or> (\<exists>xs ps. r_data (parseDocument P payload) = JArray xs ps)"
    using parseDocument_data_shape[of P payload]
    by (auto simp: r_data_parseDocument)
next
  assume "p_data payload = None \<or> p_data payload = Some []"
  then have "parseDocument_data P payload = JObj []"
    by (auto simp: parseDocument_data_def)
  then show "r_data (parseDocument P payload) = JObj [(''_doc_id'', JStr (p_id payload))]"
    by (simp add: r_data_parseDocument parseDocument_docId_def get_prop_def)
next
  assume "p_data payload = Some s \<and> s \<noteq> [] \<and> JSON_parse P s = None"
  then have "parseDocument_data P payload = JObj [(''_raw'', JStr s)]"
    by (simp add: parseDocument_data_def)
  then show "r_data (parseDocument P payload)
          = JObj [(''_raw'', JStr s), (''_doc_id'', JStr (p_id payload))]"
    by (simp add: r_data_parseDocument parseDocument_docId_def get_prop_def)
next
  assume a: "p_data payload = Some s \<and> s \<noteq> [] \<and> JSON_parse P s = Some v
        \<and> (\<forall>ps. v \<noteq> JObj ps) \<and> (\<forall>xs ps. v \<noteq> JArray xs ps)"
  then have "parseDocument_data P payload = JObj []"
    by (cases v) (simp_all add: parseDocument_data_def)
  then show "r_data (parseDocument P payload) = JObj [(''_doc_id'', JStr (p_id payload))]"
    by (simp add: r_data_parseDocument parseDocument_docId_def get_prop_def)
next
  assume a: "p_data payload = Some s \<and> s \<noteq> [] \<and> JSON_parse P s = Some v
        \<and> ((\<exists>ps. v = JObj ps) \<or> (\<exists>xs ps. v = JArray xs ps))"
  then have "parseDocument_data P payload = v"
    by (auto simp: parseDocument_data_def)
  then show "r_data (parseDocument P payload)
          = set_prop v ''_doc_id'' (parseDocument_docId payload v)"
    by (simp add: r_data_parseDocument)
qed

theorem parseDocument_data_is_object_witness:
  "r_data (parseDocument example_platform (example_payload None None))
     = JObj [(''_doc_id'', JStr ''doc-1'')]
   \<and> r_data (parseDocument example_platform (example_payload (Some ''{oops'') None))
     = JObj [(''_raw'', JStr ''{oops''), (''_doc_id'', JStr ''doc-1'')]
   \<and> r_data (parseDocument example_platform (example_payload (Some ''null'') None))
     = JObj [(''_doc_id'', JStr ''doc-1'')]
   \<and> r_data (parseDocument example_platform (example_payload (Some ''[]'') None))
     = JArray [] [(''_doc_id'', JStr ''doc-1'')]"
  using parseDocument_data_is_object
          [of example_platform "example_payload None None" "[]" JNull]
        parseDocument_data_is_object
          [of example_platform "example_payload (Some ''{oops'') None" "''{oops''" JNull]
        parseDocument_data_is_object
          [of example_platform "example_payload (Some ''null'') None" "''null''" JNull]
        parseDocument_data_is_object
          [of example_platform "example_payload (Some ''[]'') None" "''[]''" "JArray [] []"]
  by (simp add: example_defs parseDocument_docId_def get_prop_def)

text \<open>
  Claim C4 as the specification states it fails: the data string \<open>42\<close> parses to a
  number, which is not an object, and the record's data is then the empty object with
  the internal id field only; no \<open>_raw\<close> key holds the original string.
\<close>

theorem parseDocument_non_object_counterexample:
  "JSON_parse example_platform ''42'' = Some (JNum (Finite 42))
   \<and> r_data (parseDocument example_platform (example_payload (Some ''42'') None))
       = JObj [(''_doc_id'', JStr ''doc-1'')]
   \<and> get_prop (r_data (parseDocument example_platform (example_payload (Some ''42'') None)))
       ''_raw'' = None"
  by (simp add: example_defs parseDocument_def parseDocument_data_def parseDocument_docId_def
      get_prop_def Let_def)

text \<open>
  Claim C5. For every document payload whose id is a non-empty string, the record
  returned by \<open>parseDocument\<close> has a \<open>data._doc_id\<close> that is a non-empty string:
  the \<open>_doc_id\<close> already inside the parsed data when that is a non-empty string, and
  the payload's id otherwise.
\<close>

theorem parseDocument_doc_id:
  assumes "p_id payload \<noteq> []"
  shows "\<exists>s. s \<noteq> []
           \<and> get_prop (r_data (parseDocument P payload)) ''_doc_id'' = Some (JStr s)
           \<and> s = (case get_prop (parseDocument_data P payload) ''_doc_id'' of
                    Some (JStr e) \<Rightarrow> if e \<noteq> [] then e else p_id payload
                  | _ \<Rightarrow> p_id payload)"
proof -
  let ?d = "parseDocument_data P payload"
  let ?s = "case get_prop ?d ''_doc_id'' of
              Some (JStr e) \<Rightarrow> if e \<noteq> [] then e else p_id payload
            | _ \<Rightarrow> p_id payload"
  have stored: "get_prop (r_data (parseDocument P payload)) ''_doc_id''
                  = Some (parseDocument_docId payload ?d)"
    using parseDocument_data_shape[of P payload]
    by (simp add: r_data_parseDocument get_prop_set_prop)
  have chosen: "parseDocument_docId payload ?d = JStr ?s"
    by (auto simp: parseDocument_docId_def Let_def split: option.splits jsval.splits)
  have "?s \<noteq> []"
    using assms by (auto split: option.splits jsval.splits)
  with stored chosen show ?thesis by simp
qed

theorem parseDocument_doc_id_witness:
  "get_prop (r_data (parseDocument example_platform (example_payload None None))) ''_doc_id''
     = Some (JStr ''doc-1'')
   \<and> get_prop (r_data (parseDocument example_platform
         (example_payload (Some (''{'' @ quoted ''_doc_id'' @ '':'' @ quoted ''abc'' @ ''}'')) None)))
         ''_doc_id''
     = Some (JStr ''abc'')"
  using parseDocument_doc_id [of "example_payload None None" example_platform]
        parseDocument_doc_id
          [of "example_payload (Some (''{'' @ quoted ''_doc_id'' @ '':'' @ quoted ''abc'' @ ''}'')) None"
              example_platform]
  by (simp add: example_defs parseDocument_data_def get_prop_def)

text \<open>
  Claim C6. \<open>parseDocument\<close> yields the payload's version when that is a number and
  not NaN, and version 1 in every other case: version absent, not a number, or NaN.
\<close>

theorem parseDocument_version_default:
  "(p_version payload = Some (JNum n) \<and> n \<noteq> NaN \<longrightarrow>
      r_version (parseDocument P payload) = n)
   \<and> ((\<forall>m. p_version payload = Some (JNum m) \<longrightarrow> m = NaN) \<longrightarrow>
      r_version (parseDocument P payload) = Finite 1)"
proof -
  have "r_version (parseDocument P payload) = parseDocument_version payload"
    by (simp add: parseDocument_def Let_def)
  then show ?thesis
    by (auto simp: parseDocument_version_def split: option.splits jsval.splits)
qed

theorem parseDocument_version_default_witness:
  "r_version (parseDocument example_platform (example_payload None (Some (JNum (Finite 3)))))
     = Finite 3
   \<and> r_version (parseDocument example_platform (example_payload None None)) = Finite 1
   \<and> r_version (parseDocument example_platform (example_payload None (Some (JNum NaN))))
     = Finite 1
   \<and> r_version (parseDocument example_platform (example_payload None (Some (JStr ''3''))))
     = Finite 1"
  using parseDocument_version_default
          [of "example_payload None (Some (JNum (Finite 3)))" "Finite 3" example_platform]
        parseDocument_version_default
          [of "example_payload None None" NaN example_platform]
        parseDocument_version_default
          [of "example_payload None (Some (JNum NaN))" NaN example_platform]
        parseDocument_version_default
          [of "example_payload None (Some (JStr ''3''))" NaN example_platform]
  by (simp add: example_payload_def)

section \<open>The request executor\<close>

lemma attempt_effect:
  "attempt P rt u i p = (r, rt') \<Longrightarrow> rt' = rt\<lparr>issued := issued rt @ [(u, i)]\<rparr>"
  by (auto simp: attempt_def callFetch_def split: sum.splits if_splits)

lemma requestInternal_issued:
  "requestInternal P rt options = (r, rt') \<Longrightarrow>
     issued rt' = issued rt @ transport_calls P (db rt) options"
  by (auto simp: requestInternal_def transport_calls_def enqueue_def Let_def
      split: sum.splits prod.splits if_splits dest!: attempt_effect)


lemma build_init_queue [simp]:
  "build_init P (client\<lparr>offlineQueue := q\<rparr>) options = build_init P client options"
  by (simp add: build_init_def)

lemma transport_calls_queue [simp]:
  "transport_calls P (client\<lparr>offlineQueue := q\<rparr>) options = transport_calls P client options"
  by (simp add: transport_calls_def split: sum.splits)

lemma build_init_method: "http_method (build_init P client options) = req_method options"
  by (simp add: build_init_def Let_def split: option.splits RequestBody.splits)

lemma build_init_body:
  "body (build_init P client options) =
     (case req_body options of
        None \<Rightarrow> None
      | Some (Binary b) \<Rightarrow> Some (FormDataOrBlob b)
      | Some (Structured v) \<Rightarrow> Some (StringBody (JSON_stringify P v)))"
  by (simp add: build_init_def Let_def split: option.splits RequestBody.splits)

lemmas example_request_defs =
  example_platform_def example_texts_def quoted_def example_client_def example_write_def
  example_href_def example_stringify_def scripted_def
  requestInternal_def attempt_def callFetch_def enqueue_def buildURL_def build_init_def
  strip_trailing_slash_def spread_headers_def parseError_def jsonParser_def ok_def
  connectivity_pattern_def lower_char_def js_or_def get_prop_def error_message_def Let_def

text \<open>
  Claim C1 fails on the code. With offline mode on, a POST that allows queuing and is
  answered by a real HTTP response, status 400 with the body
  \<open>{"message":"network_id is required"}\<close>, does not fail with the protocol error:
  the message taken from the body matches the connectivity pattern, so the error is
  classified as a network failure, the request is appended to the offline queue and
  the call fails with an \<open>OfflineError\<close>.
\<close>

theorem requestInternal_http_error_queued:
  "requestInternal example_platform
     \<lparr> db = example_client (scripted [Inr example_bad_request]) True, issued = [] \<rparr>
     example_write
   = (Inl (OfflineError ''Request queued while offline''
             (QueuedOperation ''https://db.example/api/collections/users/documents''
                example_write_init (jsonParser example_platform))),
      \<lparr> db = (example_client (scripted [Inr example_bad_request]) True)
               \<lparr>offlineQueue :=
                  [QueuedOperation ''https://db.example/api/collections/users/documents''
                     example_write_init (jsonParser example_platform)]\<rparr>,
        issued =
          [(''https://db.example/api/collections/users/documents'', example_write_init)] \<rparr>)
   \<and> \<not> ok example_bad_request
   \<and> parseError example_platform example_bad_request
       = TinyDBError ''network_id is required'' 400 None
           (Some (JObj [(''message'', JStr ''network_id is required'')]))
   \<and> isNetworkError (parseError example_platform example_bad_request)"
  by (simp add: example_request_defs example_write_init_def example_bad_request_def)

text \<open>
  Claim C2. When offline mode is on, the method is not \<open>GET\<close>, \<open>allowOfflineQueue\<close> is
  true and the transport throws an error that is classified as a network failure, then
  \<open>requestInternal\<close> appends exactly one operation to the tail of the offline queue,
  holding the built URL, the \<open>RequestInit\<close> (method, headers, serialised body) and the
  parser, and rejects with an \<open>OfflineError\<close> that carries that same operation. The
  transport was called once: the request is not retried.
\<close>

theorem requestInternal_queues_network_failure:
  assumes "offlineMode (db rt)"
    and "req_method options \<noteq> ''GET''"
    and "allowOfflineQueue options = Some True"
    and "buildURL P (endpoint (db rt)) (req_path options) (req_query options) = Inr u"
    and "fetchImpl (db rt) (issued rt) u (build_init P (db rt) options) = Inl err"
    and "isNetworkError err"
  shows "requestInternal P rt options =
           (let queued = QueuedOperation u (build_init P (db rt) options)
                           (case req_parser options of Some f \<Rightarrow> f | None \<Rightarrow> jsonParser P)
            in (Inl (OfflineError ''Request queued while offline'' queued),
                rt\<lparr>db := (db rt)\<lparr>offlineQueue := offlineQueue (db rt) @ [queued]\<rparr>,
                    issued := issued rt @ [(u, build_init P (db rt) options)]\<rparr>))
         \<and> http_method (build_init P (db rt) options) = req_method options
         \<and> body (build_init P (db rt) options) =
             (case req_body options of
                None \<Rightarrow> None
              | Some (Binary b) \<Rightarrow> Some (FormDataOrBlob b)
              | Some (Structured v) \<Rightarrow> Some (StringBody (JSON_stringify P v)))"
proof -
  have "attempt P rt u (build_init P (db rt) options)
          (case req_parser options of Some f \<Rightarrow> f | None \<Rightarrow> jsonParser P)
        = (Inl err, rt\<lparr>issued := issued rt @ [(u, build_init P (db rt) options)]\<rparr>)"
    using assms(5) by (simp add: attempt_def callFetch_def)
  with assms(1-4,6) show ?thesis
    by (simp add: requestInternal_def enqueue_def Let_def build_init_method build_init_body)
qed

text \<open>
  The transport is disconnected and throws a \<open>TypeError\<close>: the write is queued.
\<close>

theorem requestInternal_queues_network_failure_witness:
  "requestInternal example_platform
      \<lparr> db = example_client (scripted []) True, issued = [] \<rparr> example_write
   = (Inl (OfflineError ''Request queued while offline''
             (QueuedOperation ''https://db.example/api/collections/users/documents''
                example_write_init (jsonParser example_platform))),
      \<lparr> db = (example_client (scripted []) True)
               \<lparr>offlineQueue :=
                  [QueuedOperation ''https://db.example/api/collections/users/documents''
                     example_write_init (jsonParser example_platform)]\<rparr>,
        issued =
          [(''https://db.example/api/collections/users/documents'', example_write_init)] \<rparr>)"
  using requestInternal_queues_network_failure
          [of "\<lparr> db = example_client (scripted []) True, issued = [] \<rparr>" example_write
              example_platform "''https://db.example/api/collections/users/documents''"
              "TypeError ''fetch failed''"]
  by (simp add: example_platform_def example_client_def example_write_def example_href_def
        example_write_init_def example_stringify_def example_texts_def quoted_def
        scripted_def buildURL_def build_init_def spread_headers_def strip_trailing_slash_def
        Let_def)

section \<open>The offline queue\<close>






section \<open>The collection operations facade\<close>
















section \<open>The collection builder\<close>

lemma sync_name:
  "sync P rt b = (Inr cl, rt') \<Longrightarrow> cc_name cl = b_name b"
  by (auto simp: sync_def split: prod.splits sum.splits)








section \<open>The collection resolver\<close>

lemma create_request_conflict:
  assumes "buildURL P (endpoint (db rt)) ''/api/collections'' None = Inr u"
    and "fetchImpl (db rt) (issued rt) u
           (build_init P (db rt) (create_collection_request P (db rt) input)) = Inr response"
    and "status response = 409"
  shows "\<exists>m code details.
           requestInternal P rt (create_collection_request P (db rt) input)
             = (Inl (TinyDBError m 409 code details),
                rt\<lparr>issued := issued rt
                     @ [(u, build_init P (db rt) (create_collection_request P (db rt) input))]\<rparr>)"
proof -
  let ?request = "create_collection_request P (db rt) input"
  have path: "req_path ?request = ''/api/collections''" "req_query ?request = None"
    "allowOfflineQueue ?request = Some False" "req_parser ?request = Some (jsonParser P)"
    by (simp_all add: create_collection_request_def)
  have "attempt P rt u (build_init P (db rt) ?request) (jsonParser P)
          = (Inl (parseError P response),
             rt\<lparr>issued := issued rt @ [(u, build_init P (db rt) ?request)]\<rparr>)"
    using assms(2,3) by (simp add: attempt_def callFetch_def ok_def)
  moreover have "\<exists>m code details. parseError P response = TinyDBError m 409 code details"
    using assms(3) by (simp add: parseError_def Let_def)
  ultimately show ?thesis
    using assms(1) path by (auto simp: requestInternal_def Let_def)
qed

lemma ensureCollection_conflict_update:
  assumes "requestInternal P rt (create_collection_request P (db rt) input)
             = (Inl (TinyDBError m 409 code details), rt1)"
    and "truthy_string (stringifySchema P (in_schema input)) = Some t"
  shows "ensureCollection P rt input =
           (case requestInternal P rt1 (update_schema_request P (in_name input) t) of
              (Inl e, rt2) \<Rightarrow> (Inl e, rt2)
            | (Inr updated, rt2) \<Rightarrow> (parseCollection_of P updated, rt2))"
  using assms by (simp add: ensureCollection_def Let_def)

lemma ensureCollection_conflict_issued:
  assumes "requestInternal P rt (create_collection_request P (db rt) input)
             = (Inl (TinyDBError m 409 code details), rt1)"
    and "truthy_string (stringifySchema P (in_schema input)) = Some t"
  shows "issued (snd (ensureCollection P rt input))
           = issued rt1 @ transport_calls P (db rt1) (update_schema_request P (in_name input) t)"
  using requestInternal_issued[of P rt1 "update_schema_request P (in_name input) t"]
  by (auto simp: ensureCollection_conflict_update[OF assms] split: prod.splits sum.splits)

lemma ensureCollection_conflict_lookup:
  assumes "requestInternal P rt (create_collection_request P (db rt) input)
             = (Inl (TinyDBError m 409 code details), rt1)"
    and "truthy_string (stringifySchema P (in_schema input)) = None"
  shows "ensureCollection P rt input = describeCollection P rt1 (in_name input)"
  using assms by (simp add: ensureCollection_def Let_def)

lemma ensureCollection_other_failure:
  assumes "requestInternal P rt (create_collection_request P (db rt) input) = (Inl e, rt1)"
    and "\<forall>m code details. e \<noteq> TinyDBError m 409 code details"
  shows "ensureCollection P rt input = (Inl e, rt1)"
  using assms by (cases e) (auto simp: ensureCollection_def Let_def)

lemma describeCollection_found:
  assumes "collections P rt1 = (Inr listings, rt2)"
  shows "describeCollection P rt1 name =
           (case find (\<lambda>col. toLowerCase P (c_name col) = toLowerCase P name) listings of
              Some found \<Rightarrow> (Inr found, rt2)
            | None \<Rightarrow>
                (Inl (TinyDBError (''collection '' @ name @ '' not found'') 404
                        (Some (JStr ''collection_not_found'')) None), rt2))"
  using assms by (simp add: describeCollection_def Let_def split: option.splits)

lemma schema_supplied:
  "JSON_stringify P (JObj fs) \<noteq> [] \<Longrightarrow>
     truthy_string (stringifySchema P (Some (JObj fs))) = Some (JSON_stringify P (JObj fs))"
  "truthy_string (stringifySchema P None) = None"
  by (simp_all add: truthy_string_def stringifySchema_def)

text \<open>
  Claim C7. An HTTP response of status 409 to the create request of
  \<open>ensureCollection\<close> makes that request fail with a \<open>TinyDBError\<close> of status 409.
  Let the create request fail so. If a schema was supplied (its serialisation \<open>t\<close> is
  a non-empty string, as that of an object is), \<open>ensureCollection\<close> sends the update
  request, a \<open>PUT\<close> to the collection with the body \<open>{schema: t}\<close>, and returns what
  that request gives, decoded by \<open>parseCollection\<close>; the only request after the create
  request is that one, so no lookup is made. If no schema was supplied it returns what
  \<open>describeCollection\<close> returns: from the full listing (a \<open>GET\<close> of the collections),
  the first collection whose lowered name equals the lowered name asked for, or a
  \<open>TinyDBError\<close> with status 404 and code \<open>collection_not_found\<close>. Any failure of the
  create request that is not a \<open>TinyDBError\<close> of status 409 is returned unchanged.
\<close>

theorem ensureCollection_conflict:
  "(buildURL P (endpoint (db rt)) ''/api/collections'' None = Inr u
    \<and> fetchImpl (db rt) (issued rt) u
          (build_init P (db rt) (create_collection_request P (db rt) input)) = Inr response
    \<and> status response = 409 \<longrightarrow>
      (\<exists>m code details.
         requestInternal P rt (create_collection_request P (db rt) input)
           = (Inl (TinyDBError m 409 code details),
              rt\<lparr>issued := issued rt
                   @ [(u, build_init P (db rt)
                            (create_collection_request P (db rt) input))]\<rparr>)))
   \<and> (requestInternal P rt (create_collection_request P (db rt) input)
      = (Inl (TinyDBError m 409 code details), rt1)
    \<and> truthy_string (stringifySchema P (in_schema input)) = Some t \<longrightarrow>
      ensureCollection P rt input =
        (case requestInternal P rt1 (update_schema_request P (in_name input) t) of
           (Inl e, rt2) \<Rightarrow> (Inl e, rt2)
         | (Inr updated, rt2) \<Rightarrow> (parseCollection_of P updated, rt2))
      \<and> issued (snd (ensureCollection P rt input))
          = issued rt1 @ transport_calls P (db rt1) (update_schema_request P (in_name input) t)
      \<and> req_method (update_schema_request P (in_name input) t) = ''PUT''
      \<and> req_path (update_schema_request P (in_name input) t)
          = ''/api/collections/'' @ encodeURIComponent P (in_name input)
      \<and> req_body (update_schema_request P (in_name input) t)
          = Some (Structured (JObj [(''schema'', JStr t)])))
   \<and> (JSON_stringify P (JObj fs) \<noteq> [] \<longrightarrow>
        truthy_string (stringifySchema P (Some (JObj fs)))
          = Some (JSON_stringify P (JObj fs)))
   \<and> truthy_string (stringifySchema P None) = None
   \<and> (requestInternal P rt (create_collection_request P (db rt) input)
        = (Inl (TinyDBError m 409 code details), rt1)
      \<and> truthy_string (stringifySchema P (in_schema input)) = None \<longrightarrow>
        ensureCollection P rt input = describeCollection P rt1 (in_name input))
   \<and> req_method (collections_request P) = ''GET''
   \<and> req_path (collections_request P) = ''/api/collections''
   \<and> (collections P rt1 = (Inr listings, rt2) \<longrightarrow>
        describeCollection P rt1 name =
          (case find (\<lambda>col. toLowerCase P (c_name col) = toLowerCase P name) listings of
             Some found \<Rightarrow> (Inr found, rt2)
           | None \<Rightarrow>
               (Inl (TinyDBError (''collection '' @ name @ '' not found'') 404
                       (Some (JStr ''collection_not_found'')) None), rt2)))
   \<and> (requestInternal P rt (create_collection_request P (db rt) input) = (Inl e', rt1)
      \<and> (\<forall>m code details. e' \<noteq> TinyDBError m 409 code details) \<longrightarrow>
        ensureCollection P rt input = (Inl e', rt1))"
  using create_request_conflict[of P rt u input response]
    ensureCollection_conflict_update[of P rt input m code details rt1 t]
    ensureCollection_conflict_issued[of P rt input m code details rt1 t]
    ensureCollection_conflict_lookup[of P rt input m code details rt1]
    ensureCollection_other_failure[of P rt input e' rt1]
    describeCollection_found[of P rt1 listings rt2 name]
    schema_supplied(1)[of P fs] schema_supplied(2)[of P]
  by (simp add: update_schema_request_def collections_request_def)


text \<open>
  The server answers the create request for \<open>users\<close> with 409. With a schema, the
  client sends the update request and returns the updated descriptor. Without one, it
  lists the collections: the listing holds \<open>Users\<close>, which is returned; an empty
  listing gives the not-found error. A 500 on the create request is returned as it is.
\<close>

lemmas example_resolver_defs =
  ensureCollection_def create_collection_request_def update_schema_request_def
  ensureCollection_body_def stringifySchema_def truthy_string_def parseCollection_of_def
  describeCollection_def collections_def collections_request_def
  example_runtime_def example_response_def example_ok_def example_request_defs

lemma example_conflict_update_run:
  "ensureCollection example_platform
     (example_runtime
        [Inr (example_response 409),
         Inr (example_ok (''{'' @ quoted ''name'' @ '':'' @ quoted ''users'' @ ''}''))])
     \<lparr> in_name = ''users'', in_schema = Some (JObj []), in_primaryKey = None \<rparr>
   = (Inr (parseCollection example_platform
             (asCollectionPayload example_platform (JObj [(''name'', JStr ''users'')]))),
      (example_runtime
        [Inr (example_response 409),
         Inr (example_ok (''{'' @ quoted ''name'' @ '':'' @ quoted ''users'' @ ''}''))])
      \<lparr> issued :=
          [(''https://db.example/api/collections'',
            \<lparr> http_method = ''POST'',
              headers = [(''Accept'', ''application/json''), (''X-API-Key'', ''secret''),
                         (''Content-Type'', ''application/json'')],
              body = Some (StringBody
                       (''{'' @ quoted ''name'' @ '':'' @ quoted ''users'' @ '',''
                          @ quoted ''schema'' @ '':'' @ quoted ''{}'' @ ''}'')) \<rparr>),
           (''https://db.example/api/collections/users'',
            \<lparr> http_method = ''PUT'',
              headers = [(''Accept'', ''application/json''), (''X-API-Key'', ''secret''),
                         (''Content-Type'', ''application/json'')],
              body = Some (StringBody
                       (''{'' @ quoted ''schema'' @ '':'' @ quoted ''{}'' @ ''}'')) \<rparr>)] \<rparr>)"
  by (simp add: example_resolver_defs)

lemma example_conflict_lookup_run:
  "fst (ensureCollection example_platform
     (example_runtime
        [Inr (example_response 409),
         Inr (example_ok (''[{'' @ quoted ''name'' @ '':'' @ quoted ''Users'' @ ''}]''))])
     \<lparr> in_name = ''users'', in_schema = None, in_primaryKey = None \<rparr>)
   = Inr (parseCollection example_platform
            (asCollectionPayload example_platform (JObj [(''name'', JStr ''Users'')])))"
  by (simp add: example_resolver_defs parseCollection_def example_asCollectionPayload_def
        string_field_def optional_string_field_def CollectionPayload.extend_def)

lemma example_conflict_missing_run:
  "fst (ensureCollection example_platform
     (example_runtime [Inr (example_response 409), Inr (example_ok ''[]'')])
     \<lparr> in_name = ''users'', in_schema = None, in_primaryKey = None \<rparr>)
   = Inl (TinyDBError ''collection users not found'' 404
            (Some (JStr ''collection_not_found'')) None)"
  by (simp add: example_resolver_defs)

lemma example_create_run:
  "requestInternal example_platform (example_runtime (Inr (example_response st) # rest))
     (create_collection_request example_platform
        (db (example_runtime (Inr (example_response st) # rest))) input)
   = (if 200 \<le> st \<and> st \<le> 299 then Inr None
      else Inl (TinyDBError ''Request failed'' st None None),
      (example_runtime (Inr (example_response st) # rest))
      \<lparr> issued :=
          [(''https://db.example/api/collections'',
            build_init example_platform
              (db (example_runtime (Inr (example_response st) # rest)))
              (create_collection_request example_platform
                 (db (example_runtime (Inr (example_response st) # rest))) input))] \<rparr>)"
  by (simp add: requestInternal_def attempt_def callFetch_def buildURL_def
        create_collection_request_def example_platform_def example_client_def
        example_runtime_def example_href_def example_response_def scripted_def
        strip_trailing_slash_def jsonParser_def
        ok_def parseError_def js_or_def error_message_def Let_def)

lemma example_schema_run:
  "truthy_string (stringifySchema example_platform (Some (JObj []))) = Some ''{}''"
  "truthy_string (stringifySchema example_platform None) = None"
  by (simp_all add: truthy_string_def stringifySchema_def example_platform_def
        example_stringify_def example_texts_def quoted_def)

lemma example_listing_run:
  "collections example_platform
     (example_runtime
        [Inr (example_ok (''[{'' @ quoted ''name'' @ '':'' @ quoted ''Users'' @ ''}]''))])
   = (Inr [parseCollection example_platform
             (asCollectionPayload example_platform (JObj [(''name'', JStr ''Users'')]))],
      (example_runtime
        [Inr (example_ok (''[{'' @ quoted ''name'' @ '':'' @ quoted ''Users'' @ ''}]''))])
      \<lparr> issued :=
          [(''https://db.example/api/collections'',
            \<lparr> http_method = ''GET'',
              headers = [(''Accept'', ''application/json''), (''X-API-Key'', ''secret'')],
              body = None \<rparr>)] \<rparr>)"
  by (simp add: example_resolver_defs)

lemma example_listing_name:
  "toLowerCase example_platform
     (c_name (parseCollection example_platform
        (asCollectionPayload example_platform (JObj [(''name'', JStr ''Users'')]))))
   = toLowerCase example_platform ''users''"
  by (simp add: parseCollection_def example_platform_def example_asCollectionPayload_def
        string_field_def get_prop_def lower_char_def CollectionPayload.extend_def)

theorem ensureCollection_conflict_witness:
  "fst (ensureCollection example_platform
     (example_runtime
        [Inr (example_response 409),
         Inr (example_ok (''{'' @ quoted ''name'' @ '':'' @ quoted ''users'' @ ''}''))])
     \<lparr> in_name = ''users'', in_schema = Some (JObj []), in_primaryKey = None \<rparr>)
   = Inr (parseCollection example_platform
            (asCollectionPayload example_platform (JObj [(''name'', JStr ''users'')])))
   \<and> map (\<lambda>call. http_method (snd call))
        (issued (snd (ensureCollection example_platform
          (example_runtime
             [Inr (example_response 409),
              Inr (example_ok (''{'' @ quoted ''name'' @ '':'' @ quoted ''users'' @ ''}''))])
          \<lparr> in_name = ''users'', in_schema = Some (JObj []), in_primaryKey = None \<rparr>)))
     = [''POST'', ''PUT'']
   \<and> fst (ensureCollection example_platform
     (example_runtime
        [Inr (example_response 409),
         Inr (example_ok (''[{'' @ quoted ''name'' @ '':'' @ quoted ''Users'' @ ''}]''))])
     \<lparr> in_name = ''users'', in_schema = None, in_primaryKey = None \<rparr>)
   = Inr (parseCollection example_platform
            (asCollectionPayload example_platform (JObj [(''name'', JStr ''Users'')])))
   \<and> fst (ensureCollection example_platform
     (example_runtime [Inr (example_response 409), Inr (example_ok ''[]'')])
     \<lparr> in_name = ''users'', in_schema = None, in_primaryKey = None \<rparr>)
   = Inl (TinyDBError ''collection users not found'' 404
            (Some (JStr ''collection_not_found'')) None)
   \<and> fst (ensureCollection example_platform (example_runtime [Inr (example_response 500)])
     \<lparr> in_name = ''users'', in_schema = None, in_primaryKey = None \<rparr>)
   = Inl (TinyDBError ''Request failed'' 500 None None)
   \<and> fst (describeCollection example_platform
     (example_runtime
        [Inr (example_ok (''[{'' @ quoted ''name'' @ '':'' @ quoted ''Users'' @ ''}]''))])
     ''users'')
   = Inr (parseCollection example_platform
            (asCollectionPayload example_platform (JObj [(''name'', JStr ''Users'')])))"
proof -
  let ?schema = "\<lparr> in_name = ''users'', in_schema = Some (JObj []), in_primaryKey = None \<rparr>"
  let ?plain = "\<lparr> in_name = ''users'', in_schema = None, in_primaryKey = None \<rparr>"
  let ?updating =
    "example_runtime
       [Inr (example_response 409),
        Inr (example_ok (''{'' @ quoted ''name'' @ '':'' @ quoted ''users'' @ ''}''))]"
  let ?listing =
    "example_runtime
       [Inr (example_ok (''[{'' @ quoted ''name'' @ '':'' @ quoted ''Users'' @ ''}]''))]"
  let ?conflict = "example_runtime [Inr (example_response 409), Inr (example_ok ''[]'')]"
  let ?failing = "example_runtime [Inr (example_response 500)]"
  let ?sent = "\<lambda>rt input.
    rt\<lparr>issued :=
         [(''https://db.example/api/collections'',
           build_init example_platform (db rt)
             (create_collection_request example_platform (db rt) input))]\<rparr>"
  note create_conflict = example_create_run [where st = 409, simplified]
  note create_failure = example_create_run [where st = 500, simplified]
  have conflict:
    "\<exists>m code details.
       requestInternal example_platform ?updating
         (create_collection_request example_platform (db ?updating) ?schema)
       = (Inl (TinyDBError m 409 code details), ?sent ?updating ?schema)"
    using ensureCollection_conflict
        [where P = example_platform and rt = ?updating and input = ?schema
           and u = "''https://db.example/api/collections''"
           and response = "example_response 409"]
    by (simp add: buildURL_def strip_trailing_slash_def example_runtime_def
          example_client_def example_platform_def example_href_def example_response_def
          scripted_def)
  have updated:
    "ensureCollection example_platform ?updating ?schema =
       (case requestInternal example_platform (?sent ?updating ?schema)
               (update_schema_request example_platform ''users'' ''{}'') of
          (Inl e, rt2) \<Rightarrow> (Inl e, rt2)
        | (Inr updated, rt2) \<Rightarrow> (parseCollection_of example_platform updated, rt2))"
    using create_conflict example_schema_run(1)
      ensureCollection_conflict
        [where P = example_platform and rt = ?updating and input = ?schema
           and m = "''Request failed''" and code = None and details = None
           and ?rt1.0 = "?sent ?updating ?schema" and t = "''{}''"]
    by simp
  have looked_up:
    "ensureCollection example_platform ?conflict ?plain =
       describeCollection example_platform (?sent ?conflict ?plain) ''users''"
    using create_conflict example_schema_run(2)
      ensureCollection_conflict
        [where P = example_platform and rt = ?conflict and input = ?plain
           and m = "''Request failed''" and code = None and details = None
           and ?rt1.0 = "?sent ?conflict ?plain"]
    by simp
  have found:
    "fst (describeCollection example_platform ?listing ''users'') =
       Inr (parseCollection example_platform
              (asCollectionPayload example_platform (JObj [(''name'', JStr ''Users'')])))"
    using example_listing_run example_listing_name
      ensureCollection_conflict
        [where P = example_platform and ?rt1.0 = ?listing and name = "''users''"
           and listings = "[parseCollection example_platform
                              (asCollectionPayload example_platform
                                 (JObj [(''name'', JStr ''Users'')]))]"
           and ?rt2.0 = "?listing
                        \<lparr>issued :=
                           [(''https://db.example/api/collections'',
                             \<lparr> http_method = ''GET'',
                               headers = [(''Accept'', ''application/json''),
                                          (''X-API-Key'', ''secret'')],
                               body = None \<rparr>)]\<rparr>"]
    by simp
  have other:
    "fst (ensureCollection example_platform ?failing ?plain) =
       Inl (TinyDBError ''Request failed'' 500 None None)"
    using create_failure
      ensureCollection_conflict
        [where P = example_platform and rt = ?failing and input = ?plain
           and e' = "TinyDBError ''Request failed'' 500 None None"
           and ?rt1.0 = "?sent ?failing ?plain"]
    by simp
  from conflict updated looked_up found other show ?thesis
    by (simp (no_asm) add: example_conflict_update_run [simplified]
          example_conflict_lookup_run [simplified] example_conflict_missing_run
          found [simplified] other)
qed

end
